theory Spec2Isabelle
  imports Main
begin

section \<open>State interpreter (lib/constants.ts)\<close>

text \<open>
  The enums \<open>PwsState\<close>, \<open>RobotState\<close> and \<open>CalculatedState\<close> of the source are string
  enums: at run time their members are the strings given here.  \<open>calculateState\<close> takes
  two arbitrary strings and returns a member of \<open>CalculatedState\<close>.
\<close>

definition PwsState_On :: string where "PwsState_On = ''on''"
definition PwsState_Off :: string where "PwsState_Off = ''off''"
definition PwsState_HoldDelay :: string where "PwsState_HoldDelay = ''holdDelay''"
definition PwsState_HoldWeekly :: string where "PwsState_HoldWeekly = ''holdWeekly''"
definition PwsState_Programming :: string where "PwsState_Programming = ''programming''"
definition PwsState_Error :: string where "PwsState_Error = ''error''"

definition RobotState_Fault :: string where "RobotState_Fault = ''fault''"
definition RobotState_NotConnected :: string where "RobotState_NotConnected = ''notConnected''"
definition RobotState_Programming :: string where "RobotState_Programming = ''programming''"
definition RobotState_Init :: string where "RobotState_Init = ''init''"
definition RobotState_Scanning :: string where "RobotState_Scanning = ''scanning''"
definition RobotState_Finished :: string where "RobotState_Finished = ''finished''"

lemmas PwsState_defs =
  PwsState_On_def PwsState_Off_def PwsState_HoldDelay_def PwsState_HoldWeekly_def
  PwsState_Programming_def PwsState_Error_def

lemmas RobotState_defs =
  RobotState_Fault_def RobotState_NotConnected_def RobotState_Programming_def
  RobotState_Init_def RobotState_Scanning_def RobotState_Finished_def

datatype CalculatedState = Off | Cleaning | Error | Init | Programming | HoldDelay | HoldWeekly

text \<open>The run-time value of each member of the enum.\<close>

fun CalculatedState_value :: "CalculatedState \<Rightarrow> string" where
  "CalculatedState_value Off = ''off''"
| "CalculatedState_value Cleaning = ''cleaning''"
| "CalculatedState_value Error = ''error''"
| "CalculatedState_value Init = ''init''"
| "CalculatedState_value Programming = ''programming''"
| "CalculatedState_value HoldDelay = ''holddelay''"
| "CalculatedState_value HoldWeekly = ''holdweekly''"

definition calculateState :: "string \<Rightarrow> string \<Rightarrow> CalculatedState" where
  "calculateState pwsState robotState =
     (if pwsState = PwsState_Error \<or> robotState = RobotState_Fault then Error
      else if pwsState = PwsState_Programming \<and> robotState = RobotState_Programming
        then Programming
      else if pwsState = PwsState_HoldDelay then HoldDelay
      else if pwsState = PwsState_HoldWeekly then HoldWeekly
      else if pwsState = PwsState_On \<and> robotState = RobotState_Init then Init
      else if (pwsState = PwsState_Programming \<and> robotState \<noteq> RobotState_Finished)
           \<or> (pwsState = PwsState_On
               \<and> robotState \<noteq> RobotState_NotConnected
               \<and> robotState \<noteq> RobotState_Finished)
        then Cleaning
      else Off)"

text \<open>
  The specification's wording of the same function: an ordered table of precedence rules,
  read top to bottom, the first rule whose condition holds decides, and \<open>off\<close> when none
  does.  It is compared with the source's cascade below.
\<close>

type_synonym status_rule = "(string \<Rightarrow> string \<Rightarrow> bool) \<times> CalculatedState"

fun first_match :: "status_rule list \<Rightarrow> CalculatedState \<Rightarrow> string \<Rightarrow> string \<Rightarrow> CalculatedState" where
  "first_match [] dflt pws rob = dflt"
| "first_match ((cond, result) # rules) dflt pws rob =
     (if cond pws rob then result else first_match rules dflt pws rob)"

definition spec_status_rules :: "status_rule list" where
  "spec_status_rules =
     [(\<lambda>pws rob. pws = ''error'' \<or> rob = ''fault'', Error),
      (\<lambda>pws rob. pws = ''programming'' \<and> rob = ''programming'', Programming),
      (\<lambda>pws rob. pws = ''holdDelay'', HoldDelay),
      (\<lambda>pws rob. pws = ''holdWeekly'', HoldWeekly),
      (\<lambda>pws rob. pws = ''on'' \<and> rob = ''init'', Init),
      (\<lambda>pws rob. (pws = ''programming'' \<and> rob \<noteq> ''finished'')
                      \<or> (pws = ''on'' \<and> rob \<notin> {''notConnected'', ''finished''}),
       Cleaning)]"

definition spec_calculateStatus :: "string \<Rightarrow> string \<Rightarrow> CalculatedState" where
  "spec_calculateStatus pws rob = first_match spec_status_rules Off pws rob"

definition derived_statuses :: "string set" where
  "derived_statuses =
     {''off'', ''cleaning'', ''error'', ''init'', ''programming'', ''holddelay'', ''holdweekly''}"

subsection \<open>Filter bag status\<close>

text \<open>
  \<open>getFilterBagStatus\<close> takes a JavaScript number; the shadow's filter code is an integer
  (0 to 102), and the claim is about integers, so the argument is an \<open>int\<close>.
\<close>

definition getFilterBagStatus :: "int \<Rightarrow> string" where
  "getFilterBagStatus v =
     (if v < 0 then ''unknown''
      else if v = 0 then ''empty''
      else if v \<le> 25 then ''partially_full''
      else if v \<le> 74 then ''getting_full''
      else if v \<le> 99 then ''almost_full''
      else if v = 100 then ''full''
      else if v = 101 then ''fault''
      else if v = 102 then ''not_available''
      else ''unknown'')"

section \<open>Request signer (lib/aws-sig-v4.ts)\<close>

text \<open>
  Strings are byte strings (the UTF-8 encoding of the JavaScript string); a Node
  \<open>Buffer\<close> is a byte string too.  The functions of Node's \<open>crypto\<close> module are not code
  of this repository: the raw SHA-256 digest and the raw HMAC-SHA256 are parameters,
  collected in a record.  The clock is a parameter as well: \<open>nowIso\<close> is the value of
  \<open>now.toISOString()\<close> for the one \<open>new Date()\<close> the function takes, for example
  \<open>2026-11-03T12:34:56.789Z\<close>.
\<close>

type_synonym bytes = string

record AwsCredentials =
  Token :: string
  AccessKeyId :: string
  SecretAccessKey :: string

record crypto =
  sha256_digest :: "string \<Rightarrow> bytes"
  hmac_sha256 :: "bytes \<Rightarrow> string \<Rightarrow> bytes"

definition hex_digit :: "bool \<Rightarrow> nat \<Rightarrow> char" where
  "hex_digit upper n =
     (if upper then ''0123456789ABCDEF'' else ''0123456789abcdef'') ! (n mod 16)"

definition hex_byte :: "bool \<Rightarrow> char \<Rightarrow> string" where
  "hex_byte upper c =
     [hex_digit upper ((of_char c :: nat) div 16), hex_digit upper ((of_char c :: nat) mod 16)]"

text \<open>\<open>digest('hex')\<close>: two lower-case hexadecimal digits for each byte.\<close>

definition hex :: "bytes \<Rightarrow> string" where
  "hex bs = concat (map (hex_byte False) bs)"

definition hmac :: "crypto \<Rightarrow> bytes \<Rightarrow> string \<Rightarrow> bytes" where
  "hmac cr key data = hmac_sha256 cr key data"

definition sha256 :: "crypto \<Rightarrow> string \<Rightarrow> string" where
  "sha256 cr data = hex (sha256_digest cr data)"

definition is_digit :: "char \<Rightarrow> bool" where
  "is_digit c \<longleftrightarrow> c \<in> set ''0123456789''"

definition is_alpha :: "char \<Rightarrow> bool" where
  "is_alpha c \<longleftrightarrow>
     c \<in> set ''ABCDEFGHIJKLMNOPQRSTUVWXYZ'' \<or> c \<in> set ''abcdefghijklmnopqrstuvwxyz''"

text \<open>
  \<open>encodeURIComponent\<close> of the JavaScript runtime: letters, digits and
  \<open>- _ . ! ~ * ' ( )\<close> are kept, every other byte of the UTF-8 encoding becomes \<open>%\<close> and
  two upper-case hexadecimal digits.
\<close>

definition uri_unreserved :: "char \<Rightarrow> bool" where
  "uri_unreserved c \<longleftrightarrow> is_alpha c \<or> is_digit c \<or> c \<in> set ''-_.!~*()'' \<or> c = CHR 0x27"

definition encodeURIComponent :: "string \<Rightarrow> string" where
  "encodeURIComponent s =
     concat (map (\<lambda>c. if uri_unreserved c then [c] else CHR ''%'' # hex_byte True c) s)"

text \<open>\<open>Array.prototype.join\<close> on strings.\<close>

fun join :: "string \<Rightarrow> string list \<Rightarrow> string" where
  "join sep [] = []"
| "join sep [x] = x"
| "join sep (x # y # ys) = x @ sep @ join sep (y # ys)"

text \<open>
  \<open>.replace(/[:-]|\.\d{3}/g, '')\<close>: scanning from the left, a colon or a hyphen is
  dropped, and so is a dot together with the three digits after it.
\<close>

function strip_iso :: "string \<Rightarrow> string" where
  "strip_iso [] = []"
| "strip_iso (c # cs) =
     (if c = CHR '':'' \<or> c = CHR ''-'' then strip_iso cs
      else if c = CHR ''.'' \<and> 3 \<le> length cs \<and> list_all is_digit (take 3 cs)
        then strip_iso (drop 3 cs)
      else c # strip_iso cs)"
  by pat_completeness auto
termination
  by (relation "measure length") auto

definition dateStamp :: "string \<Rightarrow> string" where
  "dateStamp nowIso = take 8 (strip_iso nowIso)"

definition amzDate :: "string \<Rightarrow> string" where
  "amzDate nowIso = take 15 (strip_iso nowIso) @ ''Z''"

definition service :: string where
  "service = ''iotdevicegateway''"

definition credentialScope :: "string \<Rightarrow> string \<Rightarrow> string" where
  "credentialScope region nowIso =
     dateStamp nowIso @ ''/'' @ region @ ''/'' @ service @ ''/aws4_request''"

text \<open>
  The canonical request, the string to sign, the signing key and the signature are
  built the same way in both copies of the file; they are functions of the canonical
  query string.
\<close>

definition canonicalRequest :: "crypto \<Rightarrow> string \<Rightarrow> string \<Rightarrow> string" where
  "canonicalRequest cr endpoint canonicalQueryString =
     join [CHR 0x0A]
       [''GET'', ''/mqtt'', canonicalQueryString, ''host:'' @ endpoint, [], ''host'',
        sha256 cr []]"

definition stringToSign :: "crypto \<Rightarrow> string \<Rightarrow> string \<Rightarrow> string \<Rightarrow> string \<Rightarrow> string" where
  "stringToSign cr endpoint region nowIso canonicalQueryString =
     join [CHR 0x0A]
       [''AWS4-HMAC-SHA256'', amzDate nowIso, credentialScope region nowIso,
        sha256 cr (canonicalRequest cr endpoint canonicalQueryString)]"

definition kSigning :: "crypto \<Rightarrow> string \<Rightarrow> AwsCredentials \<Rightarrow> string \<Rightarrow> bytes" where
  "kSigning cr region credentials nowIso =
     (let kDate = hmac cr (''AWS4'' @ SecretAccessKey credentials) (dateStamp nowIso);
          kRegion = hmac cr kDate region;
          kService = hmac cr kRegion service
      in hmac cr kService ''aws4_request'')"

definition signature ::
  "crypto \<Rightarrow> string \<Rightarrow> string \<Rightarrow> AwsCredentials \<Rightarrow> string \<Rightarrow> string \<Rightarrow> string" where
  "signature cr endpoint region credentials nowIso canonicalQueryString =
     hex (hmac_sha256 cr (kSigning cr region credentials nowIso)
            (stringToSign cr endpoint region nowIso canonicalQueryString))"

subsection \<open>The copy that signs without the session token\<close>

text \<open>
  The copy of \<open>signWebSocketUrl\<close> whose comment reads: "X-Amz-Security-Token must NOT be
  in the canonical query string for signing - it is appended AFTER the signature".
\<close>

definition canonicalQueryString :: "string \<Rightarrow> AwsCredentials \<Rightarrow> string \<Rightarrow> string" where
  "canonicalQueryString region credentials nowIso =
     join ''&''
       [''X-Amz-Algorithm=AWS4-HMAC-SHA256'',
        ''X-Amz-Credential=''
          @ encodeURIComponent (AccessKeyId credentials @ ''/'' @ credentialScope region nowIso),
        ''X-Amz-Date='' @ amzDate nowIso,
        ''X-Amz-SignedHeaders=host'']"

definition signWebSocketUrl ::
  "crypto \<Rightarrow> string \<Rightarrow> string \<Rightarrow> string \<Rightarrow> AwsCredentials \<Rightarrow> string" where
  "signWebSocketUrl cr nowIso endpoint region credentials =
     (let cqs = canonicalQueryString region credentials nowIso;
          url = ''wss://'' @ endpoint @ ''/mqtt?'' @ cqs @ ''&X-Amz-Signature=''
                  @ signature cr endpoint region credentials nowIso cqs
      in if Token credentials \<noteq> []
         then url @ ''&X-Amz-Security-Token='' @ encodeURIComponent (Token credentials)
         else url)"

subsection \<open>The copy that sorts the token into the signed parameters\<close>

text \<open>
  The other copy of \<open>signWebSocketUrl\<close> builds a \<open>Record\<close> of query parameters, adds
  \<open>X-Amz-Security-Token\<close> to it when the token is truthy, sorts the keys and signs the
  resulting query string; nothing is appended after the signature.  The record is an
  association list in insertion order; \<open>sort()\<close> without a comparator orders strings by
  their code units.
\<close>

fun str_less :: "string \<Rightarrow> string \<Rightarrow> bool" where
  "str_less [] [] = False"
| "str_less [] (y # ys) = True"
| "str_less (x # xs) [] = False"
| "str_less (x # xs) (y # ys) =
     ((of_char x :: nat) < of_char y \<or> (x = y \<and> str_less xs ys))"

fun insert_key :: "string \<Rightarrow> string list \<Rightarrow> string list" where
  "insert_key k [] = [k]"
| "insert_key k (x # xs) = (if str_less k x then k # x # xs else x # insert_key k xs)"

definition sort_keys :: "string list \<Rightarrow> string list" where
  "sort_keys ks = foldr insert_key ks []"

definition queryParams_v1 :: "string \<Rightarrow> AwsCredentials \<Rightarrow> string \<Rightarrow> (string \<times> string) list" where
  "queryParams_v1 region credentials nowIso =
     [(''X-Amz-Algorithm'', ''AWS4-HMAC-SHA256''),
      (''X-Amz-Credential'', AccessKeyId credentials @ ''/'' @ credentialScope region nowIso),
      (''X-Amz-Date'', amzDate nowIso),
      (''X-Amz-SignedHeaders'', ''host'')]
     @ (if Token credentials \<noteq> [] then [(''X-Amz-Security-Token'', Token credentials)]
        else [])"

definition canonicalQueryString_v1 :: "string \<Rightarrow> AwsCredentials \<Rightarrow> string \<Rightarrow> string" where
  "canonicalQueryString_v1 region credentials nowIso =
     (let queryParams = queryParams_v1 region credentials nowIso;
          sortedKeys = sort_keys (map fst queryParams)
      in join ''&''
           (map (\<lambda>k. encodeURIComponent k @ ''=''
                      @ encodeURIComponent
                          (case map_of queryParams k of Some v \<Rightarrow> v | None \<Rightarrow> ''undefined''))
              sortedKeys))"

definition signWebSocketUrl_v1 ::
  "crypto \<Rightarrow> string \<Rightarrow> string \<Rightarrow> string \<Rightarrow> AwsCredentials \<Rightarrow> string" where
  "signWebSocketUrl_v1 cr nowIso endpoint region credentials =
     (let cqs = canonicalQueryString_v1 region credentials nowIso
      in ''wss://'' @ endpoint @ ''/mqtt?'' @ cqs @ ''&X-Amz-Signature=''
           @ signature cr endpoint region credentials nowIso cqs)"

section \<open>Device (drivers/dolphin/device.ts)\<close>

subsection \<open>Reported state (lib/types.ts)\<close>

text \<open>
  Every fragment of a reported state is optional, and so are the fields marked \<open>?\<close> in
  the interfaces; an absent value is \<open>None\<close>.  The numeric fields are the integer codes
  and counters of the shadow document.  Fields that \<open>onStateUpdate\<close> never reads
  (\<open>robotType\<close>, \<open>isBusy\<close>, \<open>timeZone\<close>, \<open>resetFBI\<close>, \<open>turnOnCount\<close>, \<open>pwsError\<close>,
  \<open>activity\<close>) are left out.
\<close>

record SystemState =
  pwsState :: string
  robotState :: string
  rTurnOnCount :: "int option"

record CleaningMode =
  mode :: string
  cycleTime :: "int option"
  cycleStartTimeUTC :: "int option"

record CycleInfo =
  cleaningMode :: "CleaningMode option"

record LedState =
  ledMode :: int
  ledIntensity :: int
  ledEnable :: bool

record FilterBagIndication =
  state :: int

record DebugInfo =
  WIFI_RSSI :: "int option"
  WIFI_NETName :: "string option"

record WifiInfo =
  netName :: "string option"

record ErrorInfo =
  errorCode :: int

record ReportedState =
  systemState :: "SystemState option"
  cycleInfo :: "CycleInfo option"
  led :: "LedState option"
  filterBagIndication :: "FilterBagIndication option"
  debug :: "DebugInfo option"
  wifi :: "WifiInfo option"
  robotError :: "ErrorInfo option"

subsection \<open>Host boundary: capability values and flow triggers\<close>

text \<open>
  \<open>setCapabilityValue\<close> and the flow cards belong to the host platform.  The capability
  store is a map from capability names to values; a call of \<open>setCapabilityValue\<close> writes
  the map.  A trigger the device asks the host to fire (once the driver is ready) is
  recorded, with its tokens, in the list the handler returns, in the order of the
  requests.  \<open>CRatio a b\<close> stands for the JavaScript number \<open>a / b\<close>.
\<close>

datatype cap_value = CBool bool | CNum int | CStr string | CRatio int int

datatype token = TStr string | TNum int

datatype trigger = Trigger string "(string \<times> token) list"

fun trigger_name :: "trigger \<Rightarrow> string" where
  "trigger_name (Trigger name tokens) = name"

definition fired :: "string \<Rightarrow> trigger list \<Rightarrow> nat" where
  "fired name ts = length (filter (\<lambda>t. trigger_name t = name) ts)"

record DolphinDevice =
  previousStatus :: string
  currentLedState :: LedState
  capabilities :: "string \<rightharpoonup> cap_value"

definition setCapabilityValue :: "string \<Rightarrow> cap_value \<Rightarrow> DolphinDevice \<Rightarrow> DolphinDevice" where
  "setCapabilityValue name v d = d\<lparr>capabilities := (capabilities d)(name \<mapsto> v)\<rparr>"

text \<open>The fields of a freshly constructed device, before any update.\<close>

definition new_device :: DolphinDevice where
  "new_device =
     \<lparr>previousStatus = [],
      currentLedState = \<lparr>ledMode = 1, ledIntensity = 80, ledEnable = True\<rparr>,
      capabilities = Map.empty\<rparr>"

definition LED_MODES :: "int \<rightharpoonup> string" where
  "LED_MODES = [1 \<mapsto> ''blinking'', 2 \<mapsto> ''always_on'', 3 \<mapsto> ''disco'']"

text \<open>
  Decimal rendering of an integer, as a template literal does for a magnitude below
  \<open>10^21\<close> (from there on JavaScript prints an exponent); the error codes and the
  millisecond clock rendered here are such numbers.
\<close>

fun show_nat :: "nat \<Rightarrow> string" where
  "show_nat n =
     (if n < 10 then [''0123456789'' ! n]
      else show_nat (n div 10) @ [''0123456789'' ! (n mod 10)])"

declare show_nat.simps [simp del]

definition show_int :: "int \<Rightarrow> string" where
  "show_int i = (if i < 0 then CHR ''-'' # show_nat (nat (- i)) else show_nat (nat i))"

subsection \<open>Status transitions\<close>

text \<open>\<open>state.cycleInfo?.cleaningMode?.mode\<close>: \<open>None\<close> where the chain is undefined.\<close>

definition reported_mode :: "ReportedState \<Rightarrow> string option" where
  "reported_mode st =
     (case cycleInfo st of
        None \<Rightarrow> None
      | Some ci \<Rightarrow> (case cleaningMode ci of None \<Rightarrow> None | Some cm \<Rightarrow> Some (mode cm)))"

definition handleStatusChange :: "string \<Rightarrow> string \<Rightarrow> ReportedState \<Rightarrow> trigger list" where
  "handleStatusChange previous current st =
     (if current = CalculatedState_value Cleaning \<and> previous \<noteq> CalculatedState_value Cleaning
      then [Trigger ''cleaning_started''
              [(''mode'',
                TStr (case reported_mode st of
                        None \<Rightarrow> ''all''
                      | Some m \<Rightarrow> if m \<noteq> [] then m else ''all''))]]
      else [])
     @ (if previous = CalculatedState_value Cleaning \<and> current \<noteq> CalculatedState_value Cleaning
        then [Trigger ''cleaning_finished'' []]
        else [])"

subsection \<open>onStateUpdate\<close>

text \<open>
  The handler is one function in the source; each block under one of its comments is a
  definition here, and \<open>onStateUpdate\<close> runs them in the source's order.  The local
  variable \<open>calculatedStatus\<close> stays undefined (\<open>None\<close>) when the update has no
  \<open>systemState\<close>.  \<open>nowMs\<close> is the value of \<open>Date.now()\<close>.  A string is truthy when
  it is present and not empty, a number when it is present and not zero.
\<close>

definition update_systemState ::
  "ReportedState \<Rightarrow> DolphinDevice \<Rightarrow> CalculatedState option \<times> trigger list \<times> DolphinDevice" where
  "update_systemState st d =
     (case systemState st of
        None \<Rightarrow> (None, [], d)
      | Some ss \<Rightarrow>
          (let calculatedStatus = calculateState (pwsState ss) (robotState ss);
               isCleaning = (calculatedStatus = Cleaning \<or> calculatedStatus = Init);
               d1 = setCapabilityValue ''onoff'' (CBool isCleaning) d;
               d2 = setCapabilityValue ''robot_status''
                      (CStr (CalculatedState_value calculatedStatus)) d1;
               d3 = (case rTurnOnCount ss of
                       None \<Rightarrow> d2
                     | Some n \<Rightarrow> setCapabilityValue ''cycle_count'' (CNum n) d2)
           in if previousStatus d3 \<noteq> CalculatedState_value calculatedStatus
              then (Some calculatedStatus,
                    handleStatusChange (previousStatus d3)
                      (CalculatedState_value calculatedStatus) st,
                    d3\<lparr>previousStatus := CalculatedState_value calculatedStatus\<rparr>)
              else (Some calculatedStatus, [], d3)))"

definition update_cycleInfo ::
  "int \<Rightarrow> CalculatedState option \<Rightarrow> ReportedState \<Rightarrow> DolphinDevice \<Rightarrow> DolphinDevice" where
  "update_cycleInfo nowMs calculatedStatus st d =
     (case cycleInfo st of
        None \<Rightarrow> d
      | Some ci \<Rightarrow>
          (case cleaningMode ci of
             None \<Rightarrow> d
           | Some cm \<Rightarrow>
               if mode cm = [] then d
               else
                 (let d1 = (if mode cm \<noteq> ''pickup''
                            then setCapabilityValue ''cleaning_mode'' (CStr (mode cm)) d
                            else d);
                      otherwise = (if calculatedStatus = Some Off
                                   then setCapabilityValue ''cycle_time_remaining'' (CNum 0) d1
                                   else d1)
                  in case cycleTime cm of
                       None \<Rightarrow> otherwise
                     | Some time \<Rightarrow>
                         (case cycleStartTimeUTC cm of
                            None \<Rightarrow> otherwise
                          | Some start \<Rightarrow>
                              if time \<noteq> 0 \<and> start \<noteq> 0
                              then
                                (let nowSeconds = nowMs div 1000;
                                     elapsedMinutes = (nowSeconds - start) div 60;
                                     remaining = max 0 (time - elapsedMinutes)
                                 in setCapabilityValue ''cycle_time_remaining''
                                      (CNum remaining) d1)
                              else otherwise))))"

definition update_filterBag :: "ReportedState \<Rightarrow> DolphinDevice \<Rightarrow> trigger list \<times> DolphinDevice" where
  "update_filterBag st d =
     (case filterBagIndication st of
        None \<Rightarrow> ([], d)
      | Some fb \<Rightarrow>
          (let filterValue = state fb
           in if filterValue \<ge> 0 \<and> filterValue \<le> 100
              then (if filterValue \<ge> 100 then [Trigger ''filter_bag_full'' []] else [],
                    setCapabilityValue ''filter_status'' (CNum filterValue) d)
              else ([], d)))"

definition update_wifi :: "ReportedState \<Rightarrow> DolphinDevice \<Rightarrow> DolphinDevice" where
  "update_wifi st d =
     (let d1 = (case debug st of
                  None \<Rightarrow> d
                | Some dbg \<Rightarrow>
                    (case WIFI_RSSI dbg of
                       None \<Rightarrow> d
                     | Some rssi \<Rightarrow> setCapabilityValue ''wifi_signal'' (CNum rssi) d));
          debugName = (case debug st of None \<Rightarrow> None | Some dbg \<Rightarrow> WIFI_NETName dbg);
          wifiName = (case wifi st of None \<Rightarrow> None | Some w \<Rightarrow> netName w);
          name = (case debugName of
                    None \<Rightarrow> wifiName
                  | Some n \<Rightarrow> if n \<noteq> [] then Some n else wifiName)
      in case name of
           None \<Rightarrow> d1
         | Some n \<Rightarrow> if n \<noteq> [] then setCapabilityValue ''network_name'' (CStr n) d1 else d1)"

definition update_robotError :: "ReportedState \<Rightarrow> DolphinDevice \<Rightarrow> trigger list \<times> DolphinDevice" where
  "update_robotError st d =
     (case robotError st of
        None \<Rightarrow> ([], d)
      | Some e \<Rightarrow>
          (let errorStr = (if errorCode e > 0 then ''Error '' @ show_int (errorCode e)
                           else ''None'')
           in (if errorCode e > 0
               then [Trigger ''robot_error_occurred'' [(''error_code'', TNum (errorCode e))]]
               else [],
               setCapabilityValue ''robot_error'' (CStr errorStr) d)))"

definition update_led :: "ReportedState \<Rightarrow> DolphinDevice \<Rightarrow> DolphinDevice" where
  "update_led st d =
     (case led st of
        None \<Rightarrow> d
      | Some l \<Rightarrow>
          (let d1 = d\<lparr>currentLedState := l\<rparr>;
               ledModeStr = (case LED_MODES (ledMode l) of
                               None \<Rightarrow> ''blinking''
                             | Some s \<Rightarrow> if s \<noteq> [] then s else ''blinking'');
               d2 = setCapabilityValue ''led_mode'' (CStr ledModeStr) d1
           in setCapabilityValue ''dim'' (CRatio (ledIntensity l) 100) d2))"

definition onStateUpdate :: "int \<Rightarrow> ReportedState \<Rightarrow> DolphinDevice \<Rightarrow> trigger list \<times> DolphinDevice" where
  "onStateUpdate nowMs st d =
     (case update_systemState st d of
        (calculatedStatus, t1, d1) \<Rightarrow>
          (let d2 = update_cycleInfo nowMs calculatedStatus st d1
           in case update_filterBag st d2 of
                (t3, d3) \<Rightarrow>
                  (let d4 = update_wifi st d3
                   in case update_robotError st d4 of
                        (t5, d5) \<Rightarrow> (t1 @ t3 @ t5, update_led st d5))))"

text \<open>
  A sequence of updates, each with the clock reading at its arrival: the triggers each
  update fires, update by update.
\<close>

fun stateUpdates :: "(int \<times> ReportedState) list \<Rightarrow> DolphinDevice \<Rightarrow> trigger list list" where
  "stateUpdates [] d = []"
| "stateUpdates ((nowMs, st) # us) d =
     (case onStateUpdate nowMs st d of (ts, d') \<Rightarrow> ts # stateUpdates us d')"

text \<open>The derived status of an update that carries a \<open>systemState\<close> fragment.\<close>

definition derived_status :: "ReportedState \<Rightarrow> string" where
  "derived_status st =
     (case systemState st of
        None \<Rightarrow> []
      | Some ss \<Rightarrow> CalculatedState_value (calculateState (pwsState ss) (robotState ss)))"

text \<open>
  The specification's wording of the two triggers: along the sequence of derived
  statuses, starting from the recorded one, \<open>cleaning_started\<close> is due once at each step
  from a value other than \<open>cleaning\<close> to \<open>cleaning\<close>, and \<open>cleaning_finished\<close> once at each
  step from \<open>cleaning\<close> to another value.
\<close>

fun started_due :: "string \<Rightarrow> string list \<Rightarrow> nat list" where
  "started_due prev [] = []"
| "started_due prev (cur # rest) =
     (if prev \<noteq> ''cleaning'' \<and> cur = ''cleaning'' then 1 else 0) # started_due cur rest"

fun finished_due :: "string \<Rightarrow> string list \<Rightarrow> nat list" where
  "finished_due prev [] = []"
| "finished_due prev (cur # rest) =
     (if prev = ''cleaning'' \<and> cur \<noteq> ''cleaning'' then 1 else 0) # finished_due cur rest"

section \<open>Shadow session (lib/MaytronicsCloud.ts)\<close>

text \<open>
  The model follows the file \<open>lib/MaytronicsCloud.ts\<close>.  The older copy of the class
  among the sources has the same methods without the calls of the logger and without
  the connect timer; its \<open>sendCommand\<close>, its close handler and its \<open>disconnect\<close> are the
  ones below with the \<open>Log\<close> effects removed.
\<close>

subsection \<open>Constants and topics (lib/constants.ts)\<close>

definition AWS_IOT_ENDPOINT :: string where
  "AWS_IOT_ENDPOINT = ''a12rqfdx55bdbv-ats.iot.eu-west-1.amazonaws.com''"

definition AWS_REGION :: string where
  "AWS_REGION = ''eu-west-1''"

definition getShadowGetTopic :: "string \<Rightarrow> string" where
  "getShadowGetTopic motorUnitSerial = ''$aws/things/'' @ motorUnitSerial @ ''/shadow/get''"

definition getShadowUpdateTopic :: "string \<Rightarrow> string" where
  "getShadowUpdateTopic motorUnitSerial = ''$aws/things/'' @ motorUnitSerial @ ''/shadow/update''"

definition getShadowWildcardTopic :: "string \<Rightarrow> string" where
  "getShadowWildcardTopic motorUnitSerial = ''$aws/things/'' @ motorUnitSerial @ ''/shadow/#''"

definition getDynamicTopic :: "string \<Rightarrow> string" where
  "getDynamicTopic motorUnitSerial = ''Maytronics/'' @ motorUnitSerial @ ''/main''"

subsection \<open>The session object and what it does to the outside\<close>

text \<open>
  A JSON document, for the \<open>desired\<close> argument of a command.  \<open>JSON.stringify\<close> and
  \<open>String.prototype.substring\<close> belong to the JavaScript runtime and are parameters of
  the functions that call them: \<open>substring_0_200 s\<close> is \<open>s.substring(0, 200)\<close>, the first
  200 UTF-16 code units of \<open>s\<close>.
\<close>

datatype json =
  JNull | JBool bool | JNum int | JStr string | JArr "json list" | JObj "(string \<times> json) list"

record js_runtime =
  JSON_stringify :: "json \<Rightarrow> string"
  substring_0_200 :: "string \<Rightarrow> string"

text \<open>
  The fields of the class.  A transport (\<open>MqttClient\<close>) is named by a handle, the number
  of transports \<open>mqtt.connect\<close> had opened before it; \<open>client\<close> is \<open>None\<close> for \<open>null\<close>.  The
  flag \<open>connected\<close> is the private field \<open>_connected\<close>.  The class extends Node's
  \<open>EventEmitter\<close>: \<open>errorListeners\<close> are the listeners registered on the session for its
  \<open>error\<close> event, in the order of their registration, each described by what a call of it
  does: it returns, or it throws an error with a message.
\<close>

datatype listener = Handles | Raises string

record MaytronicsCloud =
  client :: "nat option"
  motorUnitSerial :: string
  connected :: bool
  errorListeners :: "listener list"

text \<open>
  What a method does beyond changing the fields is returned as a list of effects, in
  the order of the calls: a notification emitted to the listeners of the session, a call
  of the MQTT library on a transport, a call of the logger (its message; further
  arguments are left out), the arming and clearing of the connect timer, and the
  settling of the promise \<open>connect\<close> returned.  Publishing and subscribing use QoS 0.
\<close>

datatype notification = Connected | Disconnected | ErrorEvent string

datatype effect =
    Emit notification
  | Publish nat string string
  | MqttConnect nat string string
  | End nat
  | Log string
  | LogError string
  | SetTimeout nat
  | ClearTimeout
  | Reject string

definition emitted :: "notification \<Rightarrow> effect list \<Rightarrow> nat" where
  "emitted n es = length (filter (\<lambda>e. e = Emit n) es)"

fun is_Emit :: "effect \<Rightarrow> bool" where
  "is_Emit (Emit n) = True"
| "is_Emit e = False"

fun is_Publish :: "effect \<Rightarrow> bool" where
  "is_Publish (Publish h topic payload) = True"
| "is_Publish e = False"

subsection \<open>sendCommand\<close>

text \<open>
  \<open>this.emit('error', err)\<close> on an \<open>EventEmitter\<close>: with no listener for \<open>error\<close> the
  emitter throws \<open>err\<close>; otherwise it calls the listeners in turn, and an error a listener
  throws leaves \<open>emit\<close>, and with it the method that called \<open>emit\<close>, as an exception.
\<close>

datatype exn = Thrown string

fun first_raise :: "listener list \<Rightarrow> string option" where
  "first_raise [] = None"
| "first_raise (Handles # ls) = first_raise ls"
| "first_raise (Raises m # ls) = Some m"

definition emit_error :: "string \<Rightarrow> MaytronicsCloud \<Rightarrow> exn + effect list" where
  "emit_error message s =
     (case errorListeners s of
        [] \<Rightarrow> Inl (Thrown message)
      | l # ls \<Rightarrow>
          (case first_raise (l # ls) of
             None \<Rightarrow> Inr [Emit (ErrorEvent message)]
           | Some m \<Rightarrow> Inl (Thrown m)))"

text \<open>
  The result of \<open>sendCommand\<close> is \<open>Inl\<close> of the exception that leaves the call, or \<open>Inr\<close> of
  the effects and the session when the call returns.
\<close>

definition sendCommand ::
  "js_runtime \<Rightarrow> json \<Rightarrow> MaytronicsCloud \<Rightarrow> exn + (effect list \<times> MaytronicsCloud)" where
  "sendCommand js desired s =
     (let refused = (case emit_error ''Cannot send command: not connected'' s of
                       Inl e \<Rightarrow> Inl e
                     | Inr es \<Rightarrow> Inr (es, s))
      in case client s of
           None \<Rightarrow> refused
         | Some h \<Rightarrow>
             if \<not> connected s then refused
             else
               (let payload =
                      JSON_stringify js (JObj [(''state'', JObj [(''desired'', desired)])]);
                    topic = getShadowUpdateTopic (motorUnitSerial s)
                in Inr ([Log (''[MQTT] Sending command to '' @ topic @ '': ''
                              @ substring_0_200 js payload),
                         Publish h topic payload],
                        s)))"

subsection \<open>The close handler\<close>

text \<open>The listener \<open>connect\<close> registers for the transport's \<open>close\<close> event.\<close>

definition onClose :: "MaytronicsCloud \<Rightarrow> effect list \<times> MaytronicsCloud" where
  "onClose s =
     (if connected s
      then ([Log ''[MQTT] Connection closed'', Emit Disconnected], s\<lparr>connected := False\<rparr>)
      else ([Log ''[MQTT] Connection closed''], s))"

text \<open>A run of \<open>n\<close> close signals, one after the other.\<close>

fun close_signals :: "nat \<Rightarrow> MaytronicsCloud \<Rightarrow> effect list \<times> MaytronicsCloud" where
  "close_signals 0 s = ([], s)"
| "close_signals (Suc n) s =
     (case onClose s of
        (e, s') \<Rightarrow> (case close_signals n s' of (es, s'') \<Rightarrow> (e @ es, s'')))"

subsection \<open>connect and disconnect\<close>

text \<open>
  The session together with the MQTT library's side: \<open>live\<close> holds the handles of the
  transports that \<open>mqtt.connect\<close> has opened and on which \<open>end\<close> has not been called, and
  \<open>opened\<close> counts the transports opened so far.
\<close>

record session =
  cloud :: MaytronicsCloud
  live :: "nat set"
  opened :: nat

definition new_session :: session where
  "new_session =
     \<lparr>cloud = \<lparr>client = None, motorUnitSerial = [], connected = False,
               errorListeners = []\<rparr>,
      live = {}, opened = 0\<rparr>"

text \<open>
  \<open>disconnect\<close> and \<open>connect\<close> are \<open>async\<close> functions: a call runs up to an \<open>await\<close>, is
  suspended there, and goes on in a later turn of the event loop.  Each is modelled by
  its pieces between the suspension points, and the whole call by the pieces one after
  the other.

  \<open>disconnect\<close> returns at once when there is no client.  Otherwise it clears the flag
  and calls \<open>end(true, {}, callback)\<close> on the client, which closes the transport by force
  (\<open>disconnect_enter\<close>), and waits for the callback, which sets \<open>client\<close> to \<open>null\<close>
  (\<open>end_callback\<close>).
\<close>

definition disconnect_enter :: "session \<Rightarrow> effect list \<times> session" where
  "disconnect_enter x =
     (case client (cloud x) of
        None \<Rightarrow> ([], x)
      | Some h \<Rightarrow>
          ([Log ''[MQTT] Disconnecting...'', End h],
           x\<lparr>cloud := (cloud x)\<lparr>connected := False\<rparr>, live := live x - {h}\<rparr>))"

definition end_callback :: "session \<Rightarrow> session" where
  "end_callback x = x\<lparr>cloud := (cloud x)\<lparr>client := None\<rparr>\<rparr>"

definition disconnect :: "session \<Rightarrow> effect list \<times> session" where
  "disconnect x =
     (case client (cloud x) of
        None \<Rightarrow> ([], x)
      | Some h \<Rightarrow> (case disconnect_enter x of (e, x1) \<Rightarrow> (e, end_callback x1)))"

text \<open>
  \<open>connect\<close> stores the serial, logs, and enters \<open>disconnect\<close>, at whose promise it is
  suspended (\<open>connect_enter\<close>).  When it goes on it signs the URL, arms the connect timer,
  opens the transport and stores it in \<open>client\<close> (\<open>connect_resume\<close>: the change of the
  session is \<open>client_created\<close>); the promise it returns is settled later by one of the
  listeners or by the connect timer.  \<open>nowIso\<close> is the clock reading the signer takes and
  \<open>nowMs\<close> the value of \<open>Date.now()\<close> in the client id.
\<close>

definition connect_enter :: "string \<Rightarrow> session \<Rightarrow> effect list \<times> session" where
  "connect_enter serial x =
     (let x1 = x\<lparr>cloud := (cloud x)\<lparr>motorUnitSerial := serial\<rparr>\<rparr>
      in case disconnect_enter x1 of
           (e1, x2) \<Rightarrow> ([Log ''[MQTT] Credentials check:''] @ e1, x2))"

definition client_created :: "session \<Rightarrow> session" where
  "client_created x =
     x\<lparr>cloud := (cloud x)\<lparr>client := Some (opened x)\<rparr>,
       live := insert (opened x) (live x),
       opened := Suc (opened x)\<rparr>"

definition connect_resume ::
  "crypto \<Rightarrow> string \<Rightarrow> int \<Rightarrow> string \<Rightarrow> AwsCredentials \<Rightarrow> session \<Rightarrow> effect list \<times> session" where
  "connect_resume cr nowIso nowMs serial credentials x =
     (let url = signWebSocketUrl cr nowIso AWS_IOT_ENDPOINT AWS_REGION credentials;
          clientId = ''homey_dolphin_'' @ serial @ ''_'' @ show_int nowMs
      in ([Log (''[MQTT] Connecting to '' @ AWS_IOT_ENDPOINT @ '' with clientId='' @ clientId),
           Log (''[MQTT] Signed URL length: '' @ show_nat (length url)),
           SetTimeout 30000,
           MqttConnect (opened x) url clientId],
          client_created x))"

text \<open>A call of \<open>connect\<close> that nothing else interleaves with.\<close>

definition connect ::
  "crypto \<Rightarrow> string \<Rightarrow> int \<Rightarrow> string \<Rightarrow> AwsCredentials \<Rightarrow> session \<Rightarrow> effect list \<times> session" where
  "connect cr nowIso nowMs serial credentials x =
     (case connect_enter serial x of
        (e1, x1) \<Rightarrow>
          (let x2 = (if client (cloud x) = None then x1 else end_callback x1)
           in case connect_resume cr nowIso nowMs serial credentials x2 of
                (e2, x3) \<Rightarrow> (e1 @ e2, x3)))"




text \<open>The connect timer's callback, 30 seconds after \<open>connect\<close> armed it.\<close>

definition onConnectTimeout :: "session \<Rightarrow> effect list \<times> session" where
  "onConnectTimeout x =
     ([LogError (''[MQTT] Connection timeout after 30s '' @ [CHR 0xE2, CHR 0x80, CHR 0x94]
                 @ '' no connect or error event''),
       ClearTimeout]
      @ (case client (cloud x) of None \<Rightarrow> [] | Some h \<Rightarrow> [End h])
      @ [Reject ''MQTT connection timed out after 30 seconds''],
      case client (cloud x) of
        None \<Rightarrow> x
      | Some h \<Rightarrow> x\<lparr>cloud := (cloud x)\<lparr>client := None\<rparr>, live := live x - {h}\<rparr>)"

text \<open>
  The calls and signals that touch the transport handle, and a history without overlap
  as a list of them: each is run to its completion before the next begins.
\<close>

datatype call =
    Connect string int string AwsCredentials
  | Disconnect
  | ConnectTimeout
  | TransportClose

fun step :: "crypto \<Rightarrow> call \<Rightarrow> session \<Rightarrow> session" where
  "step cr (Connect nowIso nowMs serial credentials) x =
     snd (connect cr nowIso nowMs serial credentials x)"
| "step cr Disconnect x = snd (disconnect x)"
| "step cr ConnectTimeout x = snd (onConnectTimeout x)"
| "step cr TransportClose x = x\<lparr>cloud := snd (onClose (cloud x))\<rparr>"


subsection \<open>Commands of the device\<close>

text \<open>The document \<open>returnToBase\<close> passes to \<open>sendCommand\<close>.\<close>

definition returnToBase_desired :: json where
  "returnToBase_desired = JObj [(''cleaningMode'', JObj [(''mode'', JStr ''pickup'')])]"

subsection \<open>The transport invariant\<close>


section \<open>Example inputs\<close>

definition example_credentials :: AwsCredentials where
  "example_credentials =
     \<lparr>Token = ''tok/1'', AccessKeyId = ''AKIA'', SecretAccessKey = ''secret''\<rparr>"

definition example_now :: string where
  "example_now = ''2026-11-03T12:34:56.789Z''"

text \<open>Reported states that carry one fragment only.\<close>

definition empty_update :: ReportedState where
  "empty_update =
     \<lparr>systemState = None, cycleInfo = None, led = None, filterBagIndication = None,
      debug = None, wifi = None, robotError = None\<rparr>"

definition systemState_update :: "string \<Rightarrow> string \<Rightarrow> ReportedState" where
  "systemState_update pws rob =
     empty_update\<lparr>systemState :=
       Some \<lparr>pwsState = pws, robotState = rob, rTurnOnCount = None\<rparr>\<rparr>"

definition filterBag_update :: "int \<Rightarrow> ReportedState" where
  "filterBag_update v = empty_update\<lparr>filterBagIndication := Some \<lparr>state = v\<rparr>\<rparr>"

definition cleaningMode_update :: "string \<Rightarrow> ReportedState" where
  "cleaningMode_update m =
     empty_update\<lparr>cycleInfo :=
       Some \<lparr>cleaningMode = Some \<lparr>mode = m, cycleTime = None, cycleStartTimeUTC = None\<rparr>\<rparr>\<rparr>"

text \<open>
  A session with an open, connected transport and the one \<open>error\<close> listener the device
  registers in \<open>onInit\<close>, which logs the message and returns.
\<close>

definition connected_cloud :: MaytronicsCloud where
  "connected_cloud =
     \<lparr>client = Some 0, motorUnitSerial = ''E3086OKZ'', connected = True,
      errorListeners = [Handles]\<rparr>"

text \<open>
  The runtime's functions at the arguments of the examples: the text of the
  return-to-base command, and the first 200 characters of a string of ASCII characters.
\<close>

definition example_runtime :: js_runtime where
  "example_runtime =
     \<lparr>JSON_stringify =
        (\<lambda>document. ''{'' @ [CHR 0x22] @ ''state'' @ [CHR 0x22] @ '':{'' @ [CHR 0x22] @ ''desired''
           @ [CHR 0x22] @ '':{'' @ [CHR 0x22] @ ''cleaningMode'' @ [CHR 0x22] @ '':{'' @ [CHR 0x22]
           @ ''mode'' @ [CHR 0x22] @ '':'' @ [CHR 0x22] @ ''pickup'' @ [CHR 0x22] @ ''}}}}''),
      substring_0_200 = take 200\<rparr>"

section \<open>Theorems\<close>

subsection \<open>State interpreter\<close>

lemma CalculatedState_value_in_derived: "CalculatedState_value s \<in> derived_statuses"
  by (cases s) (simp_all add: derived_statuses_def)

lemma CalculatedState_value_inj:
  "CalculatedState_value a = CalculatedState_value b \<longleftrightarrow> a = b"
  by (cases a; cases b) simp_all

text \<open>
  Claim C2.  For every pair of strings, recognised or not, \<open>calculateState\<close> returns what
  the first matching rule of the specification's ordered table gives (rules 1 to 6, and
  \<open>off\<close> as rule 7 when none matches); the result is one of the seven derived statuses.
  The function is a total HOL function with no error branch, as the source has no
  \<open>throw\<close> and compares strings with \<open>===\<close> only.
\<close>

theorem calculateState_first_match:
  "calculateState pws rob = spec_calculateStatus pws rob
   \<and> CalculatedState_value (calculateState pws rob) \<in> derived_statuses"
  by (simp add: calculateState_def spec_calculateStatus_def spec_status_rules_def
      PwsState_defs RobotState_defs CalculatedState_value_in_derived)

text \<open>
  Claim C3.  \<open>getFilterBagStatus\<close> is total on the integers, takes the listed values at
  the band boundaries 0, 25, 26, 74, 75, 99, 100, 101, 102, and maps \<open>-1\<close>, 103, every
  negative value and every value above 102 to \<open>unknown\<close>.
\<close>

theorem getFilterBagStatus_boundaries:
  "getFilterBagStatus 0 = ''empty''
   \<and> getFilterBagStatus 25 = ''partially_full''
   \<and> getFilterBagStatus 26 = ''getting_full''
   \<and> getFilterBagStatus 74 = ''getting_full''
   \<and> getFilterBagStatus 75 = ''almost_full''
   \<and> getFilterBagStatus 99 = ''almost_full''
   \<and> getFilterBagStatus 100 = ''full''
   \<and> getFilterBagStatus 101 = ''fault''
   \<and> getFilterBagStatus 102 = ''not_available''
   \<and> getFilterBagStatus (- 1) = ''unknown''
   \<and> getFilterBagStatus 103 = ''unknown''
   \<and> (\<forall>v. v < 0 \<longrightarrow> getFilterBagStatus v = ''unknown'')
   \<and> (\<forall>v. 102 < v \<longrightarrow> getFilterBagStatus v = ''unknown'')"
  by (simp add: getFilterBagStatus_def)

theorem getFilterBagStatus_boundaries_witness:
  "(- 7 :: int) < 0 \<and> (102 :: int) < 250
   \<and> getFilterBagStatus (- 7) = ''unknown'' \<and> getFilterBagStatus 250 = ''unknown''
   \<and> getFilterBagStatus 100 = ''full''"
  using getFilterBagStatus_boundaries by simp

subsection \<open>Request signer\<close>

lemmas encode_defs =
  encodeURIComponent_def uri_unreserved_def is_alpha_def is_digit_def hex_byte_def hex_digit_def

lemmas stamp_defs = credentialScope_def dateStamp_def amzDate_def service_def

text \<open>
  In the copy that carries the comment on the security token, the token has no part in
  what is signed: the canonical query string and the signature are the same for every
  token, and the URL for a token \<open>t\<close> is the URL for no token followed, when \<open>t\<close> is not
  empty, by the \<open>X-Amz-Security-Token\<close> parameter.  The URL for no token ends with the
  signature.
\<close>

lemma canonicalQueryString_ignores_token:
  "canonicalQueryString region (credentials\<lparr>Token := t\<rparr>) nowIso
     = canonicalQueryString region credentials nowIso"
  by (simp add: canonicalQueryString_def)

lemma signature_ignores_token:
  "signature cr endpoint region (credentials\<lparr>Token := t\<rparr>) nowIso q
     = signature cr endpoint region credentials nowIso q"
  by (simp add: signature_def kSigning_def)

lemma signWebSocketUrl_token_after_signature:
  "signWebSocketUrl cr nowIso endpoint region (credentials\<lparr>Token := t\<rparr>)
     = signWebSocketUrl cr nowIso endpoint region (credentials\<lparr>Token := []\<rparr>)
       @ (if t \<noteq> [] then ''&X-Amz-Security-Token='' @ encodeURIComponent t else [])
   \<and> signWebSocketUrl cr nowIso endpoint region (credentials\<lparr>Token := []\<rparr>)
     = ''wss://'' @ endpoint @ ''/mqtt?'' @ canonicalQueryString region credentials nowIso
       @ ''&X-Amz-Signature=''
       @ signature cr endpoint region credentials nowIso
           (canonicalQueryString region credentials nowIso)"
  by (simp add: signWebSocketUrl_def Let_def canonicalQueryString_ignores_token
      signature_ignores_token)

text \<open>
  Claim C1, on the copy of \<open>signWebSocketUrl\<close> that sorts its parameters.  For the
  credentials with token \<open>tok/1\<close> the canonical query string, over which the signature is
  computed, holds the parameter \<open>X-Amz-Security-Token=tok%2F1\<close> between \<open>X-Amz-Date\<close> and
  \<open>X-Amz-SignedHeaders\<close>, and the URL ends with the signature: no token parameter follows
  \<open>X-Amz-Signature\<close>.  The other copy, at the same input, signs the query string without
  the token.
\<close>

theorem signWebSocketUrl_v1_signs_token:
  "canonicalQueryString_v1 AWS_REGION example_credentials example_now
     = ''X-Amz-Algorithm=AWS4-HMAC-SHA256''
       @ ''&X-Amz-Credential=AKIA%2F20261103%2Feu-west-1%2Fiotdevicegateway%2Faws4_request''
       @ ''&X-Amz-Date=20261103T123456Z''
       @ ''&X-Amz-Security-Token=tok%2F1''
       @ ''&X-Amz-SignedHeaders=host''
   \<and> signWebSocketUrl_v1 cr example_now AWS_IOT_ENDPOINT AWS_REGION example_credentials
     = ''wss://a12rqfdx55bdbv-ats.iot.eu-west-1.amazonaws.com/mqtt?''
       @ canonicalQueryString_v1 AWS_REGION example_credentials example_now
       @ ''&X-Amz-Signature=''
       @ signature cr AWS_IOT_ENDPOINT AWS_REGION example_credentials example_now
           (canonicalQueryString_v1 AWS_REGION example_credentials example_now)
   \<and> canonicalQueryString AWS_REGION example_credentials example_now
     = ''X-Amz-Algorithm=AWS4-HMAC-SHA256''
       @ ''&X-Amz-Credential=AKIA%2F20261103%2Feu-west-1%2Fiotdevicegateway%2Faws4_request''
       @ ''&X-Amz-Date=20261103T123456Z''
       @ ''&X-Amz-SignedHeaders=host''"
proof (intro conjI)
  show "canonicalQueryString_v1 AWS_REGION example_credentials example_now
     = ''X-Amz-Algorithm=AWS4-HMAC-SHA256''
       @ ''&X-Amz-Credential=AKIA%2F20261103%2Feu-west-1%2Fiotdevicegateway%2Faws4_request''
       @ ''&X-Amz-Date=20261103T123456Z''
       @ ''&X-Amz-Security-Token=tok%2F1''
       @ ''&X-Amz-SignedHeaders=host''"
    by (simp add: canonicalQueryString_v1_def queryParams_v1_def sort_keys_def encode_defs
        stamp_defs AWS_REGION_def example_credentials_def example_now_def)
  show "signWebSocketUrl_v1 cr example_now AWS_IOT_ENDPOINT AWS_REGION example_credentials
     = ''wss://a12rqfdx55bdbv-ats.iot.eu-west-1.amazonaws.com/mqtt?''
       @ canonicalQueryString_v1 AWS_REGION example_credentials example_now
       @ ''&X-Amz-Signature=''
       @ signature cr AWS_IOT_ENDPOINT AWS_REGION example_credentials example_now
           (canonicalQueryString_v1 AWS_REGION example_credentials example_now)"
    by (simp add: signWebSocketUrl_v1_def Let_def AWS_IOT_ENDPOINT_def)
  show "canonicalQueryString AWS_REGION example_credentials example_now
     = ''X-Amz-Algorithm=AWS4-HMAC-SHA256''
       @ ''&X-Amz-Credential=AKIA%2F20261103%2Feu-west-1%2Fiotdevicegateway%2Faws4_request''
       @ ''&X-Amz-Date=20261103T123456Z''
       @ ''&X-Amz-SignedHeaders=host''"
    by (simp add: canonicalQueryString_def encode_defs stamp_defs AWS_REGION_def
        example_credentials_def example_now_def)
qed

text \<open>
  Claim C8.  In both copies the signed URL is a function of the endpoint, the region,
  the credentials and the one clock reading (and of the hash functions of the crypto
  module): two calls that agree on these return the same string.  The function has no
  other argument and returns nothing but the URL: it keeps no state and changes none.
\<close>

theorem signWebSocketUrl_deterministic:
  "endpoint1 = endpoint2 \<Longrightarrow> region1 = region2 \<Longrightarrow> credentials1 = credentials2 \<Longrightarrow>
   nowIso1 = nowIso2 \<Longrightarrow>
     signWebSocketUrl cr nowIso1 endpoint1 region1 credentials1
       = signWebSocketUrl cr nowIso2 endpoint2 region2 credentials2
     \<and> signWebSocketUrl_v1 cr nowIso1 endpoint1 region1 credentials1
       = signWebSocketUrl_v1 cr nowIso2 endpoint2 region2 credentials2"
  by simp

theorem signWebSocketUrl_deterministic_witness:
  "\<forall>cr. signWebSocketUrl cr example_now AWS_IOT_ENDPOINT AWS_REGION example_credentials
          = signWebSocketUrl cr (''2026-11-03T'' @ ''12:34:56.789Z'')
              (''a12rqfdx55bdbv-ats.iot.'' @ ''eu-west-1.amazonaws.com'') ''eu-west-1''
              \<lparr>Token = ''tok/1'', AccessKeyId = ''AKIA'', SecretAccessKey = ''secret''\<rparr>"
proof
  fix cr
  have e: "AWS_IOT_ENDPOINT = ''a12rqfdx55bdbv-ats.iot.'' @ ''eu-west-1.amazonaws.com''"
    by (simp add: AWS_IOT_ENDPOINT_def)
  have r: "AWS_REGION = ''eu-west-1''"
    by (simp add: AWS_REGION_def)
  have c: "example_credentials
             = \<lparr>Token = ''tok/1'', AccessKeyId = ''AKIA'', SecretAccessKey = ''secret''\<rparr>"
    by (simp add: example_credentials_def)
  have n: "example_now = ''2026-11-03T'' @ ''12:34:56.789Z''"
    by (simp add: example_now_def)
  from signWebSocketUrl_deterministic [OF e r c n, of cr]
  show "signWebSocketUrl cr example_now AWS_IOT_ENDPOINT AWS_REGION example_credentials
          = signWebSocketUrl cr (''2026-11-03T'' @ ''12:34:56.789Z'')
              (''a12rqfdx55bdbv-ats.iot.'' @ ''eu-west-1.amazonaws.com'') ''eu-west-1''
              \<lparr>Token = ''tok/1'', AccessKeyId = ''AKIA'', SecretAccessKey = ''secret''\<rparr>"
    by (rule conjunct1)
qed

subsection \<open>Shadow session\<close>

lemma emitted_append [simp]: "emitted n (xs @ ys) = emitted n xs + emitted n ys"
  by (simp add: emitted_def)

lemma first_raise_Handles: "\<forall>l \<in> set ls. l = Handles \<Longrightarrow> first_raise ls = None"
  by (induction ls) simp_all

lemma emit_error_handled:
  "errorListeners s \<noteq> [] \<Longrightarrow> \<forall>l \<in> set (errorListeners s). l = Handles \<Longrightarrow>
     emit_error message s = Inr [Emit (ErrorEvent message)]"
  using first_raise_Handles [of "errorListeners s"]
  by (cases "errorListeners s") (simp_all add: emit_error_def)

lemma emit_error_unhandled: "errorListeners s = [] \<Longrightarrow> emit_error message s = Inl (Thrown message)"
  by (simp add: emit_error_def)

text \<open>
  Claim C4, as the code has it.  Let the client be absent or the flag false.  When the
  session has a listener for \<open>error\<close> and each of its \<open>error\<close> listeners returns,
  \<open>sendCommand\<close> returns, having emitted the one error notification and nothing else (no
  publish), with the session unchanged.  When the session has no \<open>error\<close> listener, the
  error leaves \<open>sendCommand\<close> as an exception.  When the client is present and the flag is
  true, \<open>sendCommand\<close> returns, having published the stringified document
  \<open>{state: {desired: desired}}\<close> on that client to the shadow update topic of the stored
  serial and emitted nothing, with the session unchanged.
\<close>

theorem sendCommand_not_connected:
  "((client s = None \<or> \<not> connected s) \<and> errorListeners s \<noteq> []
      \<and> (\<forall>l \<in> set (errorListeners s). l = Handles) \<longrightarrow>
      sendCommand js desired s
        = Inr ([Emit (ErrorEvent ''Cannot send command: not connected'')], s))
   \<and> ((client s = None \<or> \<not> connected s) \<and> errorListeners s = [] \<longrightarrow>
      sendCommand js desired s = Inl (Thrown ''Cannot send command: not connected''))
   \<and> (\<forall>h. client s = Some h \<and> connected s \<longrightarrow>
        (\<exists>es. sendCommand js desired s = Inr (es, s)
           \<and> filter is_Publish es
               = [Publish h (''$aws/things/'' @ motorUnitSerial s @ ''/shadow/update'')
                    (JSON_stringify js (JObj [(''state'', JObj [(''desired'', desired)])]))]
           \<and> filter is_Emit es = []))"
proof (intro conjI impI allI)
  assume h: "(client s = None \<or> \<not> connected s) \<and> errorListeners s \<noteq> []
      \<and> (\<forall>l \<in> set (errorListeners s). l = Handles)"
  then have "emit_error ''Cannot send command: not connected'' s
               = Inr [Emit (ErrorEvent ''Cannot send command: not connected'')]"
    by (simp add: emit_error_handled)
  with h show "sendCommand js desired s
        = Inr ([Emit (ErrorEvent ''Cannot send command: not connected'')], s)"
    by (auto simp add: sendCommand_def Let_def split: option.splits)
next
  assume h: "(client s = None \<or> \<not> connected s) \<and> errorListeners s = []"
  then have "emit_error ''Cannot send command: not connected'' s
               = Inl (Thrown ''Cannot send command: not connected'')"
    by (simp add: emit_error_unhandled)
  with h show "sendCommand js desired s = Inl (Thrown ''Cannot send command: not connected'')"
    by (auto simp add: sendCommand_def Let_def split: option.splits)
next
  fix h
  assume "client s = Some h \<and> connected s"
  then show "\<exists>es. sendCommand js desired s = Inr (es, s)
           \<and> filter is_Publish es
               = [Publish h (''$aws/things/'' @ motorUnitSerial s @ ''/shadow/update'')
                    (JSON_stringify js (JObj [(''state'', JObj [(''desired'', desired)])]))]
           \<and> filter is_Emit es = []"
    by (simp add: sendCommand_def getShadowUpdateTopic_def Let_def)
qed

text \<open>
  With the device's listener registered: the error notification when the flag is
  false and when the client is absent, and the publish when connected.
\<close>

theorem sendCommand_not_connected_witness:
  "sendCommand example_runtime returnToBase_desired (connected_cloud\<lparr>connected := False\<rparr>)
     = Inr ([Emit (ErrorEvent ''Cannot send command: not connected'')],
            connected_cloud\<lparr>connected := False\<rparr>)
   \<and> sendCommand example_runtime returnToBase_desired (connected_cloud\<lparr>client := None\<rparr>)
     = Inr ([Emit (ErrorEvent ''Cannot send command: not connected'')],
            connected_cloud\<lparr>client := None\<rparr>)
   \<and> (\<exists>es. sendCommand example_runtime returnToBase_desired connected_cloud
               = Inr (es, connected_cloud)
          \<and> filter is_Publish es
              = [Publish 0 ''$aws/things/E3086OKZ/shadow/update''
                   (JSON_stringify example_runtime
                      (JObj [(''state'', JObj [(''desired'', returnToBase_desired)])]))])"
  using sendCommand_not_connected
          [of "connected_cloud\<lparr>connected := False\<rparr>" example_runtime returnToBase_desired]
        sendCommand_not_connected
          [of "connected_cloud\<lparr>client := None\<rparr>" example_runtime returnToBase_desired]
        sendCommand_not_connected [of connected_cloud example_runtime returnToBase_desired]
  by (auto simp add: connected_cloud_def)

text \<open>
  The claim as stated fails on a session nobody listens to, such as a newly constructed
  one: the client is absent, and \<open>sendCommand\<close> throws.
\<close>

theorem sendCommand_counterexample:
  "client (cloud new_session) = None
   \<and> sendCommand example_runtime returnToBase_desired (cloud new_session)
       = Inl (Thrown ''Cannot send command: not connected'')"
  by (simp add: sendCommand_def emit_error_def new_session_def Let_def)

text \<open>A close signal emits \<open>disconnected\<close> exactly when the flag was set, and clears it.\<close>

lemma onClose_emits: "emitted Disconnected (fst (onClose s)) = (if connected s then 1 else 0)"
  by (simp add: onClose_def emitted_def)

lemma onClose_clears: "\<not> connected (snd (onClose s))"
  by (simp add: onClose_def)

lemma close_signals_idle:
  "\<not> connected s \<Longrightarrow> close_signals n s = (replicate n (Log ''[MQTT] Connection closed''), s)"
  by (induction n arbitrary: s) (simp_all add: onClose_def replicate_app_Cons_same)

lemma close_signals_emits:
  "emitted Disconnected (fst (close_signals n s)) = (if connected s \<and> 0 < n then 1 else 0)"
proof (cases n)
  case 0
  then show ?thesis by (simp add: emitted_def)
next
  case (Suc m)
  obtain e s' where oc: "onClose s = (e, s')"
    by (cases "onClose s")
  from onClose_clears [of s] oc have idle: "\<not> connected s'"
    by simp
  from onClose_emits [of s] oc
  have e: "emitted Disconnected e = (if connected s then 1 else 0)"
    by simp
  have rest: "emitted Disconnected (fst (close_signals m s')) = 0"
    by (simp add: close_signals_idle [OF idle] emitted_def)
  show ?thesis
    using Suc oc e rest by (auto split: prod.splits)
qed

lemma close_signals_clears:
  assumes "0 < n"
  shows "\<not> connected (snd (close_signals n s))"
proof -
  from assms obtain m where n: "n = Suc m"
    by (cases n) simp_all
  obtain e s' where oc: "onClose s = (e, s')"
    by (cases "onClose s")
  from onClose_clears [of s] oc have idle: "\<not> connected s'"
    by simp
  show ?thesis
    using n oc idle by (auto simp add: close_signals_idle [OF idle] split: prod.splits)
qed

text \<open>
  Claim C6.  From any state of the session, a run of \<open>n\<close> close signals emits
  \<open>disconnected\<close> once if the flag was set and the run is not empty, and not at all
  otherwise; a single close signal emits it exactly when the flag was set; after a close
  signal the flag is clear, and any number of further close signals emit nothing.
\<close>

theorem disconnected_once_per_transition:
  "emitted Disconnected (fst (close_signals n s)) = (if connected s \<and> 0 < n then 1 else 0)
   \<and> emitted Disconnected (fst (onClose s)) = (if connected s then 1 else 0)
   \<and> \<not> connected (snd (onClose s))
   \<and> (0 < n \<longrightarrow> \<not> connected (snd (close_signals n s)))
   \<and> emitted Disconnected (fst (close_signals m (snd (onClose s)))) = 0"
  by (simp add: close_signals_emits onClose_emits onClose_clears close_signals_clears)

theorem disconnected_once_per_transition_witness:
  "emitted Disconnected (fst (close_signals 3 connected_cloud)) = 1
   \<and> \<not> connected (snd (close_signals 3 connected_cloud))
   \<and> emitted Disconnected (fst (close_signals 2 (snd (onClose connected_cloud)))) = 0"
  using disconnected_once_per_transition [of 3 connected_cloud 2]
  by (simp add: connected_cloud_def)


subsection \<open>Device: what each block of onStateUpdate changes\<close>

lemma previousStatus_setCapabilityValue [simp]:
  "previousStatus (setCapabilityValue name v d) = previousStatus d"
  by (simp add: setCapabilityValue_def)

lemma capabilities_setCapabilityValue [simp]:
  "capabilities (setCapabilityValue name v d) = (capabilities d)(name \<mapsto> v)"
  by (simp add: setCapabilityValue_def)

lemma previousStatus_update_cycleInfo [simp]:
  "previousStatus (update_cycleInfo nowMs cs st d) = previousStatus d"
  by (simp add: update_cycleInfo_def Let_def split: option.splits)

lemma previousStatus_update_filterBag [simp]:
  "previousStatus (snd (update_filterBag st d)) = previousStatus d"
  by (simp add: update_filterBag_def Let_def split: option.splits)

lemma previousStatus_update_wifi [simp]:
  "previousStatus (update_wifi st d) = previousStatus d"
  by (simp add: update_wifi_def Let_def split: option.splits)

lemma previousStatus_update_robotError [simp]:
  "previousStatus (snd (update_robotError st d)) = previousStatus d"
  by (simp add: update_robotError_def Let_def split: option.splits)

lemma previousStatus_update_led [simp]:
  "previousStatus (update_led st d) = previousStatus d"
  by (simp add: update_led_def Let_def split: option.splits)

lemma capabilities_update_systemState:
  "k \<notin> {''onoff'', ''robot_status'', ''cycle_count''} \<Longrightarrow>
     capabilities (snd (snd (update_systemState st d))) k = capabilities d k"
  by (simp add: update_systemState_def Let_def split: option.splits)

lemma capabilities_update_cycleInfo_other:
  "k \<notin> {''cleaning_mode'', ''cycle_time_remaining''} \<Longrightarrow>
     capabilities (update_cycleInfo nowMs cs st d) k = capabilities d k"
  by (simp add: update_cycleInfo_def Let_def split: option.splits)

lemma capabilities_update_filterBag_other:
  "k \<noteq> ''filter_status'' \<Longrightarrow> capabilities (snd (update_filterBag st d)) k = capabilities d k"
  by (simp add: update_filterBag_def Let_def split: option.splits)

lemma capabilities_update_wifi:
  "k \<notin> {''wifi_signal'', ''network_name''} \<Longrightarrow>
     capabilities (update_wifi st d) k = capabilities d k"
  by (simp add: update_wifi_def Let_def split: option.splits)

lemma capabilities_update_robotError:
  "k \<noteq> ''robot_error'' \<Longrightarrow> capabilities (snd (update_robotError st d)) k = capabilities d k"
  by (simp add: update_robotError_def Let_def split: option.splits)

lemma capabilities_update_led:
  "k \<notin> {''led_mode'', ''dim''} \<Longrightarrow> capabilities (update_led st d) k = capabilities d k"
  by (simp add: update_led_def Let_def split: option.splits)

lemma capabilities_update_filterBag:
  "capabilities (snd (update_filterBag st d)) ''filter_status'' =
     (case filterBagIndication st of
        None \<Rightarrow> capabilities d ''filter_status''
      | Some fb \<Rightarrow>
          if 0 \<le> state fb \<and> state fb \<le> 100 then Some (CNum (state fb))
          else capabilities d ''filter_status'')"
  by (simp add: update_filterBag_def Let_def split: option.splits)

lemma capabilities_update_cycleInfo:
  "capabilities (update_cycleInfo nowMs cs st d) ''cleaning_mode'' =
     (case reported_mode st of
        None \<Rightarrow> capabilities d ''cleaning_mode''
      | Some m \<Rightarrow>
          if m \<noteq> [] \<and> m \<noteq> ''pickup'' then Some (CStr m)
          else capabilities d ''cleaning_mode'')"
  by (simp add: update_cycleInfo_def reported_mode_def Let_def split: option.splits)

lemma fired_append [simp]: "fired name (xs @ ys) = fired name xs + fired name ys"
  by (simp add: fired_def)

lemma fired_update_filterBag:
  "fired name (fst (update_filterBag st d)) =
     (case filterBagIndication st of
        None \<Rightarrow> 0
      | Some fb \<Rightarrow> if name = ''filter_bag_full'' \<and> state fb = 100 then 1 else 0)"
  by (simp add: update_filterBag_def fired_def Let_def split: option.splits)

lemma fired_update_robotError:
  "name \<noteq> ''robot_error_occurred'' \<Longrightarrow> fired name (fst (update_robotError st d)) = 0"
  by (simp add: update_robotError_def fired_def Let_def split: option.splits)

lemma fired_update_systemState_other:
  "name \<notin> {''cleaning_started'', ''cleaning_finished''} \<Longrightarrow>
     fired name (fst (snd (update_systemState st d))) = 0"
  by (auto simp add: update_systemState_def handleStatusChange_def fired_def Let_def
      split: option.splits)

lemma update_systemState_Some:
  assumes "systemState st = Some ss"
  shows "fired ''cleaning_started'' (fst (snd (update_systemState st d))) =
           (if previousStatus d \<noteq> ''cleaning'' \<and> derived_status st = ''cleaning''
            then 1 else 0)"
    and "fired ''cleaning_finished'' (fst (snd (update_systemState st d))) =
           (if previousStatus d = ''cleaning'' \<and> derived_status st \<noteq> ''cleaning''
            then 1 else 0)"
    and "previousStatus (snd (snd (update_systemState st d))) = derived_status st"
  using assms
  by (auto simp add: update_systemState_def derived_status_def Let_def fired_def
      handleStatusChange_def split: option.splits)

text \<open>The handler, with the results of its blocks written out.\<close>

lemma onStateUpdate_split:
  "onStateUpdate nowMs st d =
     (fst (snd (update_systemState st d))
        @ fst (update_filterBag st
                 (update_cycleInfo nowMs (fst (update_systemState st d)) st
                    (snd (snd (update_systemState st d)))))
        @ fst (update_robotError st
                 (update_wifi st
                    (snd (update_filterBag st
                       (update_cycleInfo nowMs (fst (update_systemState st d)) st
                          (snd (snd (update_systemState st d)))))))),
      update_led st
        (snd (update_robotError st
                 (update_wifi st
                    (snd (update_filterBag st
                       (update_cycleInfo nowMs (fst (update_systemState st d)) st
                          (snd (snd (update_systemState st d))))))))))"
  by (simp add: onStateUpdate_def Let_def split: prod.splits)

lemma onStateUpdate_status_step:
  assumes "systemState st = Some ss"
  shows "fired ''cleaning_started'' (fst (onStateUpdate nowMs st d)) =
           (if previousStatus d \<noteq> ''cleaning'' \<and> derived_status st = ''cleaning''
            then 1 else 0)"
    and "fired ''cleaning_finished'' (fst (onStateUpdate nowMs st d)) =
           (if previousStatus d = ''cleaning'' \<and> derived_status st \<noteq> ''cleaning''
            then 1 else 0)"
    and "previousStatus (snd (onStateUpdate nowMs st d)) = derived_status st"
  using update_systemState_Some [OF assms, of d]
  by (simp_all add: onStateUpdate_split fired_update_filterBag fired_update_robotError
      split: option.splits)

lemma stateUpdates_triggers:
  assumes "\<forall>u \<in> set us. systemState (snd u) \<noteq> None"
  shows "map (fired ''cleaning_started'') (stateUpdates us d)
           = started_due (previousStatus d) (map (derived_status \<circ> snd) us)
       \<and> map (fired ''cleaning_finished'') (stateUpdates us d)
           = finished_due (previousStatus d) (map (derived_status \<circ> snd) us)"
  using assms
proof (induction us arbitrary: d)
  case Nil
  show ?case by simp
next
  case (Cons u us)
  obtain nowMs st where u: "u = (nowMs, st)"
    by (cases u)
  from Cons.prems u obtain ss where ss: "systemState st = Some ss"
    by auto
  obtain ts d' where step: "onStateUpdate nowMs st d = (ts, d')"
    by (cases "onStateUpdate nowMs st d")
  from Cons.prems have rest: "\<forall>u \<in> set us. systemState (snd u) \<noteq> None"
    by simp
  note ih = Cons.IH [OF rest, of d']
  from onStateUpdate_status_step [OF ss, of nowMs d] step
  have a: "fired ''cleaning_started'' ts =
             (if previousStatus d \<noteq> ''cleaning'' \<and> derived_status st = ''cleaning''
              then 1 else 0)"
    and b: "fired ''cleaning_finished'' ts =
             (if previousStatus d = ''cleaning'' \<and> derived_status st \<noteq> ''cleaning''
              then 1 else 0)"
    and c: "previousStatus d' = derived_status st"
    by simp_all
  show ?case
    using ih a b c by (simp add: u step)
qed

lemma onStateUpdate_filter_status:
  "capabilities (snd (onStateUpdate nowMs st d)) ''filter_status'' =
     (case filterBagIndication st of
        None \<Rightarrow> capabilities d ''filter_status''
      | Some fb \<Rightarrow>
          if 0 \<le> state fb \<and> state fb \<le> 100 then Some (CNum (state fb))
          else capabilities d ''filter_status'')"
  by (simp add: onStateUpdate_split capabilities_update_led capabilities_update_robotError
      capabilities_update_wifi capabilities_update_filterBag
      capabilities_update_cycleInfo_other capabilities_update_systemState
      split: option.splits)

lemma onStateUpdate_filter_bag_full:
  "fired ''filter_bag_full'' (fst (onStateUpdate nowMs st d)) =
     (case filterBagIndication st of
        None \<Rightarrow> 0
      | Some fb \<Rightarrow> if state fb = 100 then 1 else 0)"
  by (simp add: onStateUpdate_split fired_update_filterBag fired_update_robotError
      fired_update_systemState_other split: option.splits)

lemma onStateUpdate_cleaning_mode:
  "capabilities (snd (onStateUpdate nowMs st d)) ''cleaning_mode'' =
     (case reported_mode st of
        None \<Rightarrow> capabilities d ''cleaning_mode''
      | Some m \<Rightarrow>
          if m \<noteq> [] \<and> m \<noteq> ''pickup'' then Some (CStr m)
          else capabilities d ''cleaning_mode'')"
  by (simp add: onStateUpdate_split capabilities_update_led capabilities_update_robotError
      capabilities_update_wifi capabilities_update_filterBag_other
      capabilities_update_cycleInfo capabilities_update_systemState
      split: option.splits)

lemmas update_defs =
  empty_update_def systemState_update_def filterBag_update_def cleaningMode_update_def

lemmas status_defs = derived_status_def calculateState_def PwsState_defs RobotState_defs

subsection \<open>Device: the claims\<close>

text \<open>
  Claim C5.  Along any sequence of updates that all carry a \<open>systemState\<close> fragment,
  started from any device state, the number of \<open>cleaning_started\<close> triggers an update
  fires is one where the derived status steps from a value other than \<open>cleaning\<close> to
  \<open>cleaning\<close> and zero elsewhere, and the number of \<open>cleaning_finished\<close> triggers is one
  where it steps from \<open>cleaning\<close> to another value and zero elsewhere; the value a step
  starts from is the status recorded by the update before it (for the first update, the
  device's recorded status).  An update whose derived status is the recorded one fires
  neither.
\<close>

theorem cleaning_triggers_once_per_transition:
  assumes "\<forall>u \<in> set us. systemState (snd u) \<noteq> None"
  shows "map (fired ''cleaning_started'') (stateUpdates us d)
           = started_due (previousStatus d) (map (derived_status \<circ> snd) us)
       \<and> map (fired ''cleaning_finished'') (stateUpdates us d)
           = finished_due (previousStatus d) (map (derived_status \<circ> snd) us)
       \<and> (\<forall>nowMs (st :: ReportedState) (d0 :: DolphinDevice).
             systemState st \<noteq> None \<and> derived_status st = previousStatus d0 \<longrightarrow>
               fired ''cleaning_started'' (fst (onStateUpdate nowMs st d0)) = 0
               \<and> fired ''cleaning_finished'' (fst (onStateUpdate nowMs st d0)) = 0)"
proof (intro conjI allI impI)
  show "map (fired ''cleaning_started'') (stateUpdates us d)
          = started_due (previousStatus d) (map (derived_status \<circ> snd) us)"
    using stateUpdates_triggers [OF assms, of d] by (rule conjunct1)
  show "map (fired ''cleaning_finished'') (stateUpdates us d)
          = finished_due (previousStatus d) (map (derived_status \<circ> snd) us)"
    using stateUpdates_triggers [OF assms, of d] by (rule conjunct2)
next
  fix nowMs and st :: ReportedState and d0 :: DolphinDevice
  assume h: "systemState st \<noteq> None \<and> derived_status st = previousStatus d0"
  then obtain ss where ss: "systemState st = Some ss"
    by auto
  from h onStateUpdate_status_step(1) [OF ss, of nowMs d0]
  show "fired ''cleaning_started'' (fst (onStateUpdate nowMs st d0)) = 0"
    by simp
  from h onStateUpdate_status_step(2) [OF ss, of nowMs d0]
  show "fired ''cleaning_finished'' (fst (onStateUpdate nowMs st d0)) = 0"
    by simp
qed

text \<open>
  Off, then cleaning twice, then the robot reports \<open>finished\<close>: started fires at the
  second update only, finished at the fourth only.
\<close>

theorem cleaning_triggers_once_per_transition_witness:
  "map (fired ''cleaning_started'')
     (stateUpdates
        [(0, systemState_update ''off'' ''notConnected''),
         (1000, systemState_update ''on'' ''scanning''),
         (2000, systemState_update ''on'' ''scanning''),
         (3000, systemState_update ''on'' ''finished'')] new_device) = [0, 1, 0, 0]
   \<and> map (fired ''cleaning_finished'')
     (stateUpdates
        [(0, systemState_update ''off'' ''notConnected''),
         (1000, systemState_update ''on'' ''scanning''),
         (2000, systemState_update ''on'' ''scanning''),
         (3000, systemState_update ''on'' ''finished'')] new_device) = [0, 0, 0, 1]"
  using cleaning_triggers_once_per_transition
          [of "[(0, systemState_update ''off'' ''notConnected''),
                (1000, systemState_update ''on'' ''scanning''),
                (2000, systemState_update ''on'' ''scanning''),
                (3000, systemState_update ''on'' ''finished'')]" new_device]
  by (simp add: update_defs status_defs new_device_def)

text \<open>
  Claim C9, as the code has it.  For an update that carries a \<open>filterBagIndication\<close>
  fragment with value \<open>v\<close>, from any device state: when \<open>0 \<le> v \<le> 100\<close> the capability
  \<open>filter_status\<close> becomes \<open>v\<close>, and when moreover \<open>v \<ge> 100\<close>, that is \<open>v = 100\<close>, the
  trigger \<open>filter_bag_full\<close> fires once, whatever the earlier updates were; in every other
  case it does not fire, and when \<open>v\<close> is outside \<open>0..100\<close> the capability keeps its
  value.
\<close>

theorem filter_bag_full_level_triggered:
  assumes "filterBagIndication st = Some fb"
  shows "(0 \<le> state fb \<and> state fb \<le> 100 \<longrightarrow>
            capabilities (snd (onStateUpdate nowMs st d)) ''filter_status''
              = Some (CNum (state fb)))
       \<and> (0 \<le> state fb \<and> state fb \<le> 100 \<and> state fb \<ge> 100 \<longrightarrow>
            fired ''filter_bag_full'' (fst (onStateUpdate nowMs st d)) = 1)
       \<and> fired ''filter_bag_full'' (fst (onStateUpdate nowMs st d))
            = (if state fb = 100 then 1 else 0)
       \<and> (\<not> (0 \<le> state fb \<and> state fb \<le> 100) \<longrightarrow>
            capabilities (snd (onStateUpdate nowMs st d)) ''filter_status''
              = capabilities d ''filter_status'')"
  using assms by (simp add: onStateUpdate_filter_status onStateUpdate_filter_bag_full)

text \<open>The value 100 twice in a row: the trigger fires at both updates.\<close>

theorem filter_bag_full_level_triggered_witness:
  "capabilities (snd (onStateUpdate 0 (filterBag_update 100) new_device)) ''filter_status''
     = Some (CNum 100)
   \<and> fired ''filter_bag_full'' (fst (onStateUpdate 0 (filterBag_update 100) new_device)) = 1
   \<and> fired ''filter_bag_full''
       (fst (onStateUpdate 1000 (filterBag_update 100)
               (snd (onStateUpdate 0 (filterBag_update 100) new_device)))) = 1"
  using filter_bag_full_level_triggered
          [of "filterBag_update 100" "\<lparr>state = 100\<rparr>" 0 new_device]
        filter_bag_full_level_triggered
          [of "filterBag_update 100" "\<lparr>state = 100\<rparr>" 1000
              "snd (onStateUpdate 0 (filterBag_update 100) new_device)"]
  by (simp add: update_defs)

text \<open>
  The claim as stated fails at the value 101: the threshold condition \<open>state \<ge> 100\<close>
  holds, and the update neither fires the trigger nor sets the capability.
\<close>

theorem filter_bag_full_counterexample:
  "filterBagIndication (filterBag_update 101) = Some \<lparr>state = 101\<rparr>
   \<and> state \<lparr>state = 101\<rparr> \<ge> 100
   \<and> fired ''filter_bag_full'' (fst (onStateUpdate 0 (filterBag_update 101) new_device)) = 0
   \<and> capabilities (snd (onStateUpdate 0 (filterBag_update 101) new_device)) ''filter_status''
       = None"
  by (simp add: onStateUpdate_filter_status onStateUpdate_filter_bag_full update_defs
      new_device_def)

text \<open>
  Claim C10.  For an update whose \<open>cycleInfo.cleaningMode.mode\<close> is \<open>pickup\<close>, the mode
  \<open>returnToBase\<close> sends, the capability \<open>cleaning_mode\<close> keeps the value it had; for every
  other non-empty mode it becomes that mode.
\<close>

theorem pickup_not_written:
  assumes "cycleInfo st = Some ci" and "cleaningMode ci = Some cm"
  shows "(mode cm = ''pickup'' \<longrightarrow>
            capabilities (snd (onStateUpdate nowMs st d)) ''cleaning_mode''
              = capabilities d ''cleaning_mode'')
       \<and> (mode cm \<noteq> [] \<and> mode cm \<noteq> ''pickup'' \<longrightarrow>
            capabilities (snd (onStateUpdate nowMs st d)) ''cleaning_mode''
              = Some (CStr (mode cm)))
       \<and> returnToBase_desired = JObj [(''cleaningMode'', JObj [(''mode'', JStr ''pickup'')])]"
  using assms
  by (simp add: onStateUpdate_cleaning_mode reported_mode_def returnToBase_desired_def)

text \<open>The mode \<open>ultra\<close> is written; a following \<open>pickup\<close> leaves it in place.\<close>

theorem pickup_not_written_witness:
  "capabilities (snd (onStateUpdate 0 (cleaningMode_update ''ultra'') new_device))
     ''cleaning_mode'' = Some (CStr ''ultra'')
   \<and> capabilities
       (snd (onStateUpdate 1000 (cleaningMode_update ''pickup'')
               (snd (onStateUpdate 0 (cleaningMode_update ''ultra'') new_device))))
       ''cleaning_mode'' = Some (CStr ''ultra'')"
  using pickup_not_written
          [of "cleaningMode_update ''ultra''"
              "\<lparr>cleaningMode =
                   Some \<lparr>mode = ''ultra'', cycleTime = None, cycleStartTimeUTC = None\<rparr>\<rparr>"
              "\<lparr>mode = ''ultra'', cycleTime = None, cycleStartTimeUTC = None\<rparr>"
              0 new_device]
        pickup_not_written
          [of "cleaningMode_update ''pickup''"
              "\<lparr>cleaningMode =
                   Some \<lparr>mode = ''pickup'', cycleTime = None, cycleStartTimeUTC = None\<rparr>\<rparr>"
              "\<lparr>mode = ''pickup'', cycleTime = None, cycleStartTimeUTC = None\<rparr>"
              1000 "snd (onStateUpdate 0 (cleaningMode_update ''ultra'') new_device)"]
  by (simp add: update_defs)


subsection \<open>Shadow session: the transport handle\<close>

















end
